theory Spec2Isabelle
  imports Complex_Main
begin

section \<open>Python values used by the bot\<close>

text \<open>
  Pixel coordinates are Python/NumPy integers; they are modelled as \<open>int\<close> (screen
  coordinates are far from the 32-bit limits of the NumPy arrays that carry them).
  Confidences, areas and sleep durations are Python floats; they are modelled as
  \<open>real\<close>, so rounding is not part of the model.
\<close>

type_synonym point = "int \<times> int"

text \<open>An OpenCV contour: the array of its points, in order.\<close>

type_synonym contour = "point list"

datatype py_error = ValueError

text \<open>
  \<open>range(start, stop, step)\<close> for a positive step, the only kind the source uses
  (its steps are the constants 10, 40, 45, 50, 55, 60, 90 and 165).
\<close>

definition py_range :: "int \<Rightarrow> int \<Rightarrow> int \<Rightarrow> int list" where
  "py_range start stop step =
     map (\<lambda>i. start + int i * step) [0..<nat ((stop - start + step - 1) div step)]"

text \<open>Python's \<open>min\<close> and \<open>max\<close> of a non-empty list (the source guards both calls).\<close>

fun py_min :: "int list \<Rightarrow> int" where
  "py_min (x # xs) = fold min xs x"

fun py_max :: "int list \<Rightarrow> int" where
  "py_max (x # xs) = fold max xs x"

text \<open>
  Truthiness of an \<open>Optional[int]\<close>, as in \<open>if silo_x and silo_y\<close>: \<open>None\<close> and \<open>0\<close>
  are both false.
\<close>

fun truthy :: "int option \<Rightarrow> bool" where
  "truthy None = False"
| "truthy (Some n) = (n \<noteq> 0)"

section \<open>core/path\_generator.py\<close>

text \<open>
  \<open>cv2.pointPolygonTest(contour, pt, False)\<close> belongs to OpenCV, not to the repository:
  it is the parameter \<open>ppt\<close> of the model. The source calls it with
  \<open>(float(x), float(y))\<close>.
\<close>

type_synonym point_polygon_test = "contour \<Rightarrow> real \<times> real \<Rightarrow> real"

definition inside :: "point_polygon_test \<Rightarrow> contour \<Rightarrow> int \<Rightarrow> int \<Rightarrow> bool" where
  "inside ppt contour x y = (ppt contour (real_of_int x, real_of_int y) \<ge> 0)"

text \<open>The body of \<open>for y in y_positions\<close>: the points one horizontal line appends.\<close>

definition horizontal_line ::
  "point_polygon_test \<Rightarrow> contour \<Rightarrow> int \<Rightarrow> int \<Rightarrow> int \<Rightarrow> int \<Rightarrow> point list" where
  "horizontal_line ppt contour min_x max_x line_step y =
     (let line_points = filter (\<lambda>x. inside ppt contour x y) (py_range min_x (max_x + 1) 10)
      in if line_points \<noteq> [] then
           let left_x = py_min line_points; right_x = py_max line_points
           in map (\<lambda>x. (x, y))
                (filter (\<lambda>x. inside ppt contour x y) (py_range left_x (right_x + 1) line_step))
         else [])"

text \<open>The body of \<open>for x in x_positions\<close>: the points one vertical line appends.\<close>

definition vertical_line ::
  "point_polygon_test \<Rightarrow> contour \<Rightarrow> int \<Rightarrow> int \<Rightarrow> int \<Rightarrow> int \<Rightarrow> point list" where
  "vertical_line ppt contour min_y max_y step_size x =
     (let line_points = filter (\<lambda>y. inside ppt contour x y) (py_range min_y (max_y + 1) 10)
      in if line_points \<noteq> [] then
           let top_y = py_min line_points; bottom_y = py_max line_points
           in map (\<lambda>y. (x, y))
                (filter (\<lambda>y. inside ppt contour x y) (py_range top_y (bottom_y + 1) step_size))
         else [])"

text \<open>
  \<open>PathGenerator.create_linear_path\<close>. \<open>np.min\<close> and \<open>np.max\<close> raise \<open>ValueError\<close> on
  an array with no points; every append of the two loops is a \<open>concat\<close> of the lines.
\<close>

definition create_linear_path ::
  "point_polygon_test \<Rightarrow> int \<Rightarrow> int \<Rightarrow> contour option \<Rightarrow> string \<Rightarrow> py_error + point list" where
  "create_linear_path ppt cx cy contour path_type =
     (case contour of
        None \<Rightarrow> Inr [(cx, cy)]
      | Some contour_points \<Rightarrow>
          if contour_points = [] then Inl ValueError
          else
            let min_x = py_min (map fst contour_points);
                min_y = py_min (map snd contour_points);
                max_x = py_max (map fst contour_points);
                max_y = py_max (map snd contour_points);
                line_spacing = (if path_type = ''plant'' then 45 else 55);
                line_step = (if path_type = ''plant'' then 40 else 50);
                start_y = min_y + line_spacing div 2;
                end_y = max_y - line_spacing div 2;
                y_positions = py_range start_y (end_y + 1) line_spacing;
                horizontal =
                  concat (map (horizontal_line ppt contour_points min_x max_x line_step)
                    y_positions);
                x_spacing =
                  (if path_type = ''plant'' then line_spacing * 2 else line_spacing * 3);
                x_positions = py_range (min_x + line_spacing div 2) max_x x_spacing;
                step_size = (if path_type = ''plant'' then 50 else 60);
                vertical =
                  concat (map (vertical_line ppt contour_points min_y max_y step_size)
                    x_positions)
            in Inr ([(cx, cy)] @ horizontal @ vertical @ [(cx, cy)]))"

text \<open>An axis-aligned box as a stand-in for \<open>cv2.pointPolygonTest\<close> on concrete inputs.\<close>

definition box_test :: point_polygon_test where
  "box_test contour p =
     (if real_of_int (py_min (map fst contour)) \<le> fst p
         \<and> fst p \<le> real_of_int (py_max (map fst contour))
         \<and> real_of_int (py_min (map snd contour)) \<le> snd p
         \<and> snd p \<le> real_of_int (py_max (map snd contour))
      then 1 else - 1)"

definition square100 :: contour where
  "square100 = [(0, 0), (100, 0), (100, 100), (0, 100)]"

section \<open>config.py\<close>

text \<open>The constants of \<open>BotConfig\<close> that the modelled functions read.\<close>

definition MAIN_PAGE_THRESHOLD :: real where "MAIN_PAGE_THRESHOLD = 7 / 10"
definition MARKET_PAGE_THRESHOLD :: real where "MARKET_PAGE_THRESHOLD = 7 / 10"
definition OFFER_PAGE_THRESHOLD :: real where "OFFER_PAGE_THRESHOLD = 5 / 10"
definition SILO_POPUP_THRESHOLD :: real where "SILO_POPUP_THRESHOLD = 7 / 10"
definition CLOSE_BUTTON_THRESHOLD :: real where "CLOSE_BUTTON_THRESHOLD = 4 / 10"
definition PAPER_PAGE_THRESHOLD :: real where "PAPER_PAGE_THRESHOLD = 7 / 10"
definition OFFER_PAGE_PRIORITY_THRESHOLD :: real where "OFFER_PAGE_PRIORITY_THRESHOLD = 8 / 10"
definition MARKET_PAGE_PRIORITY_THRESHOLD :: real where "MARKET_PAGE_PRIORITY_THRESHOLD = 7 / 10"

lemmas threshold_defs =
  MAIN_PAGE_THRESHOLD_def MARKET_PAGE_THRESHOLD_def OFFER_PAGE_THRESHOLD_def
  SILO_POPUP_THRESHOLD_def CLOSE_BUTTON_THRESHOLD_def PAPER_PAGE_THRESHOLD_def
  OFFER_PAGE_PRIORITY_THRESHOLD_def MARKET_PAGE_PRIORITY_THRESHOLD_def

section \<open>core/state.py\<close>

record BotState =
  running :: bool
  detection_active :: bool
  path_execution_active :: bool
  silo_is_full :: bool
  wheat_sold_this_session :: bool

section \<open>core/template\_manager.py\<close>

text \<open>
  An image is a NumPy array: its first two dimensions (\<open>shape[:2]\<close>) and its pixel
  content, which only OpenCV inspects.
\<close>

record 'px image =
  rows :: nat
  cols :: nat
  pixels :: 'px

text \<open>
  The OpenCV calls of \<open>find_template\<close>. \<open>match_max\<close> is \<open>cv2.matchTemplate\<close> with
  \<open>TM_CCOEFF_NORMED\<close> followed by \<open>cv2.minMaxLoc\<close>: the best score \<open>max_val\<close> and
  its location \<open>max_loc = (x, y)\<close>. \<open>to_gray\<close> is what \<open>cv2.cvtColor(_, COLOR_BGR2GRAY)\<close>
  does to the pixels; it keeps the first two dimensions.
\<close>

record 'px cv2 =
  match_max :: "'px image \<Rightarrow> 'px image \<Rightarrow> real \<times> (nat \<times> nat)"
  to_gray :: "'px \<Rightarrow> 'px"

definition cvtColor_gray :: "'px cv2 \<Rightarrow> 'px image \<Rightarrow> 'px image" where
  "cvtColor_gray cv img = img\<lparr>pixels := to_gray cv (pixels img)\<rparr>"

text \<open>\<open>TemplateManager\<close>: the loaded templates by name, and the OpenCV it calls.\<close>

record 'px TemplateManager =
  cv :: "'px cv2"
  templates :: "string \<rightharpoonup> 'px image"

type_synonym detection = "int option \<times> int option \<times> real"

text \<open>The inner helper \<open>_match_template\<close> of \<open>find_template\<close>.\<close>

definition match_template :: "'px cv2 \<Rightarrow> real \<Rightarrow> 'px image \<Rightarrow> 'px image \<Rightarrow> detection" where
  "match_template c threshold img tmpl =
     (let (max_val, max_loc) = match_max c img tmpl
      in if max_val \<ge> threshold then
           let h = rows tmpl; w = cols tmpl;
               center_x = int (fst max_loc) + int w div 2;
               center_y = int (snd max_loc) + int h div 2
           in (Some center_x, Some center_y, max_val)
         else (None, None, max_val))"

definition find_template :: "'px TemplateManager \<Rightarrow> 'px image \<Rightarrow> string \<Rightarrow> real \<Rightarrow> detection" where
  "find_template tm screen template_name threshold =
     (case templates tm template_name of
        None \<Rightarrow> (None, None, 0)
      | Some template \<Rightarrow>
          let result = match_template (cv tm) threshold screen template
          in if fst result \<noteq> None then result
             else
               let screen_gray = cvtColor_gray (cv tm) screen;
                   template_gray = cvtColor_gray (cv tm) template
               in match_template (cv tm) threshold screen_gray template_gray)"

section \<open>bot/market.py: the location classifier and the silo check\<close>

definition is_on_main_page :: "'px TemplateManager \<Rightarrow> 'px image \<Rightarrow> bool \<times> real" where
  "is_on_main_page tm screen =
     (let (main_x, main_y, confidence) = find_template tm screen ''main'' MAIN_PAGE_THRESHOLD
      in (main_x \<noteq> None \<and> main_y \<noteq> None, confidence))"

definition is_in_offer :: "'px TemplateManager \<Rightarrow> 'px image \<Rightarrow> bool \<times> real" where
  "is_in_offer tm screen =
     (let (offer_x, offer_y, confidence) =
            find_template tm screen ''in_offer'' OFFER_PAGE_THRESHOLD
      in (offer_x \<noteq> None \<and> offer_y \<noteq> None, confidence))"

definition is_in_market :: "'px TemplateManager \<Rightarrow> 'px image \<Rightarrow> bool \<times> real" where
  "is_in_market tm screen =
     (let (x, y, confidence) = find_template tm screen ''market'' MARKET_PAGE_THRESHOLD
      in (x \<noteq> None \<and> y \<noteq> None, confidence))"

definition is_in_paper_page :: "'px TemplateManager \<Rightarrow> 'px image \<Rightarrow> bool \<times> real" where
  "is_in_paper_page tm screen =
     (let (paper_x, paper_y, confidence) =
            find_template tm screen ''paper_page'' PAPER_PAGE_THRESHOLD
      in (paper_x \<noteq> None \<and> paper_y \<noteq> None, confidence))"

text \<open>
  \<open>analyze_current_location\<close>: the dict \<open>locations\<close> it returns. Every branch stores one
  key and returns; the last return is the empty dict.
\<close>

definition analyze_current_location ::
  "'px TemplateManager \<Rightarrow> 'px image \<Rightarrow> (string \<rightharpoonup> real)" where
  "analyze_current_location tm screen =
     (let (is_main, main_conf) = is_on_main_page tm screen;
          (in_offer, offer_conf) = is_in_offer tm screen;
          (in_market, market_conf) = is_in_market tm screen;
          (in_paper_page, paper_page_conf) = is_in_paper_page tm screen;
          (silo_x, silo_y, silo_conf) = find_template tm screen ''silo'' SILO_POPUP_THRESHOLD;
          (close_x, close_y, close_conf) =
             find_template tm screen ''close'' CLOSE_BUTTON_THRESHOLD
      in if truthy silo_x \<and> truthy silo_y \<and> silo_conf \<ge> SILO_POPUP_THRESHOLD then
           [''silo_popup'' \<mapsto> silo_conf]
         else if paper_page_conf \<ge> PAPER_PAGE_THRESHOLD then
           [''paper_page'' \<mapsto> paper_page_conf]
         else if offer_conf \<ge> OFFER_PAGE_PRIORITY_THRESHOLD then
           [''offer'' \<mapsto> offer_conf]
         else if market_conf \<ge> MARKET_PAGE_PRIORITY_THRESHOLD
                 \<and> offer_conf < OFFER_PAGE_PRIORITY_THRESHOLD then
           [''market'' \<mapsto> market_conf]
         else if main_conf \<ge> MAIN_PAGE_THRESHOLD
                 \<and> offer_conf < OFFER_PAGE_PRIORITY_THRESHOLD
                 \<and> market_conf < MARKET_PAGE_PRIORITY_THRESHOLD
                 \<and> paper_page_conf < PAPER_PAGE_THRESHOLD then
           [''main'' \<mapsto> main_conf]
         else if truthy close_x \<and> truthy close_y \<and> close_conf \<ge> CLOSE_BUTTON_THRESHOLD then
           [''dialog_open'' \<mapsto> close_conf]
         else Map.empty)"

text \<open>
  \<open>check_silo_full_template\<close>: its return value and what it does to the \<open>BotState\<close> it
  shares with the controller.
\<close>

definition check_silo_full_template ::
  "'px TemplateManager \<Rightarrow> 'px image \<Rightarrow> BotState \<Rightarrow> bool \<times> BotState" where
  "check_silo_full_template tm screen bot_state =
     (let (silo_x, silo_y, confidence) = find_template tm screen ''silo'' SILO_POPUP_THRESHOLD
      in if truthy silo_x \<and> truthy silo_y then
           (True, bot_state\<lparr>silo_is_full := True, wheat_sold_this_session := False\<rparr>)
         else (False, bot_state))"

section \<open>core/soil\_detector.py\<close>

text \<open>Python's \<open>int(x)\<close> on a float truncates towards zero.\<close>

definition py_int :: "real \<Rightarrow> int" where
  "py_int x = (if x \<ge> 0 then \<lfloor>x\<rfloor> else \<lceil>x\<rceil>)"

text \<open>
  Python's \<open>max(xs, key=f)\<close> on a non-empty list: the first element whose key is
  maximal.
\<close>

fun py_max_key :: "('a \<Rightarrow> real) \<Rightarrow> 'a list \<Rightarrow> 'a" where
  "py_max_key key (x # xs) = fold (\<lambda>y best. if key y > key best then y else best) xs x"

text \<open>
  The OpenCV calls of \<open>detect_field\<close>. \<open>mask_contours\<close> is \<open>cv2.findContours\<close> on the
  combined mask (the rectangles of the matched field templates, or-ed with the wheat
  mask); \<open>contourArea\<close> and the moments \<open>m00\<close>, \<open>m10\<close>, \<open>m01\<close> of \<open>cv2.moments\<close> are
  read from a contour.
\<close>

record 'px soil_cv =
  mask_contours :: "'px image \<Rightarrow> contour list"
  contourArea :: "contour \<Rightarrow> real"
  m00 :: "contour \<Rightarrow> real"
  m10 :: "contour \<Rightarrow> real"
  m01 :: "contour \<Rightarrow> real"

definition get_centroid :: "'px soil_cv \<Rightarrow> contour \<Rightarrow> int option \<times> int option" where
  "get_centroid sc c =
     (if m00 sc c \<noteq> 0 then
        (Some (py_int (m10 sc c / m00 sc c)), Some (py_int (m01 sc c / m00 sc c)))
      else (None, None))"

definition detect_field ::
  "'px soil_cv \<Rightarrow> 'px image \<Rightarrow> int option \<times> int option \<times> contour option" where
  "detect_field sc screen =
     (let contours = mask_contours sc screen
      in if contours = [] then (None, None, None)
         else
           let largest_contour = py_max_key (contourArea sc) contours;
               area = contourArea sc largest_contour;
               min_area = 1000;
               max_area = real (rows screen) * real (cols screen) * (5 / 10)
           in if min_area < area \<and> area < max_area then
                let (cx, cy) = get_centroid sc largest_contour
                in (cx, cy, Some largest_contour)
              else (None, None, None))"

section \<open>Concrete inputs\<close>

text \<open>
  A screen and templates whose pixels are a label, with the matching scores of a table:
  the colour image \<open>(name, False)\<close> and its grayscale version \<open>(name, True)\<close>.
\<close>

type_synonym label = "string \<times> bool"

definition table_cv :: "((label \<times> label) \<rightharpoonup> real \<times> (nat \<times> nat)) \<Rightarrow> label cv2" where
  "table_cv table =
     \<lparr>match_max = (\<lambda>img tmpl.
         case table (pixels img, pixels tmpl) of Some r \<Rightarrow> r | None \<Rightarrow> (0, (0, 0))),
      to_gray = (\<lambda>(name, _). (name, True))\<rparr>"

definition screen1 :: "label image" where
  "screen1 = \<lparr>rows = 1080, cols = 1920, pixels = (''screen'', False)\<rparr>"

definition small_screen :: "label image" where
  "small_screen = \<lparr>rows = 100, cols = 100, pixels = (''screen'', False)\<rparr>"

definition icon :: "string \<Rightarrow> label image" where
  "icon name = \<lparr>rows = 40, cols = 60, pixels = (name, False)\<rparr>"

text \<open>The silo template scores 0.6 in colour and 0.3 in grayscale: both below 0.7.\<close>

definition faint_silo :: "label TemplateManager" where
  "faint_silo =
     \<lparr>cv = table_cv
        [((''screen'', False), (''silo'', False)) \<mapsto> (6 / 10, (100, 200)),
         ((''screen'', True), (''silo'', True)) \<mapsto> (3 / 10, (5, 5))],
      templates = [''silo'' \<mapsto> icon ''silo'']\<rparr>"

text \<open>
  The silo popup is on screen (0.9 in colour), and so is the main page marker (0.95)
  and a close button (0.8).
\<close>

definition silo_over_main :: "label TemplateManager" where
  "silo_over_main =
     \<lparr>cv = table_cv
        [((''screen'', False), (''silo'', False)) \<mapsto> (9 / 10, (100, 200)),
         ((''screen'', False), (''main'', False)) \<mapsto> (95 / 100, (10, 10)),
         ((''screen'', False), (''close'', False)) \<mapsto> (8 / 10, (700, 90))],
      templates = [''silo'' \<mapsto> icon ''silo'', ''main'' \<mapsto> icon ''main'',
                   ''close'' \<mapsto> icon ''close'']\<rparr>"

text \<open>
  A stand-in for the contour measures: the area of the bounding box, and the moments of
  a box of that area around its middle.
\<close>

definition box_area :: "contour \<Rightarrow> real" where
  "box_area c =
     real_of_int ((py_max (map fst c) - py_min (map fst c))
                  * (py_max (map snd c) - py_min (map snd c)))"

definition box_soil_cv :: "contour list \<Rightarrow> label soil_cv" where
  "box_soil_cv cs =
     \<lparr>mask_contours = (\<lambda>_. cs),
      contourArea = box_area,
      m00 = box_area,
      m10 = (\<lambda>c. box_area c * real_of_int (py_max (map fst c) + py_min (map fst c)) / 2),
      m01 = (\<lambda>c. box_area c * real_of_int (py_max (map snd c) + py_min (map snd c)) / 2)\<rparr>"

text \<open>A 40 by 25 box: its area is exactly 1000.\<close>

definition box_40_25 :: contour where
  "box_40_25 = [(10, 10), (50, 10), (50, 35), (10, 35)]"

definition box_50_40 :: contour where
  "box_50_40 = [(10, 10), (60, 10), (60, 50), (10, 50)]"

section \<open>The workflow task, its state and its environment\<close>

text \<open>
  Durations are Python floats: IEEE 754 doubles, a subset of the reals. A literal denotes
  the double nearest to it, and \<open>+\<close> and \<open>-\<close> round their exact result to the nearest
  double, ties to the even mantissa. \<open>py_float\<close> is that rounding to 53 significant
  bits: \<open>expo x\<close> is the exponent of \<open>x\<close> (\<open>2 ^ expo x \<le> x < 2 ^ (expo x + 1)\<close>) and
  \<open>pow2 (expo x - 52)\<close> the distance between neighbouring doubles at \<open>x\<close>. The exponent
  is not bounded, which agrees with the hardware from \<open>2 ^ -1022\<close> up to \<open>2 ^ 1024\<close>;
  comparisons and \<open>min\<close> are exact on doubles.
\<close>

function expo :: "real \<Rightarrow> int" where
  "expo x =
     (if x \<le> 0 then 0
      else if 2 \<le> x then expo (x / 2) + 1
      else if x < 1 then expo (2 * x) - 1
      else 0)"
  by pat_completeness auto
termination
proof (relation "measure (\<lambda>x. if 1 \<le> x then nat \<lfloor>log 2 x\<rfloor> else nat \<lceil>- log 2 x\<rceil>)")
  show "wf (measure (\<lambda>x :: real. if 1 \<le> x then nat \<lfloor>log 2 x\<rfloor> else nat \<lceil>- log 2 x\<rceil>))"
    by simp
next
  fix x :: real
  assume "\<not> x \<le> 0" and big: "2 \<le> x"
  then have "log 2 (x / 2) = log 2 x - 1" by (simp add: log_divide)
  moreover have "1 \<le> log 2 x" using big by (simp add: le_log_iff)
  ultimately have "nat \<lfloor>log 2 (x / 2)\<rfloor> < nat \<lfloor>log 2 x\<rfloor>" by simp
  with big show "(x / 2, x)
      \<in> measure (\<lambda>x. if 1 \<le> x then nat \<lfloor>log 2 x\<rfloor> else nat \<lceil>- log 2 x\<rceil>)"
    by simp
next
  fix x :: real
  assume pos: "\<not> x \<le> 0" and "\<not> 2 \<le> x" and small: "x < 1"
  from pos have dbl: "log 2 (2 * x) = log 2 x + 1" by (simp add: log_mult)
  from pos small have neg: "log 2 x < 0" by simp
  show "(2 * x, x)
      \<in> measure (\<lambda>x. if 1 \<le> x then nat \<lfloor>log 2 x\<rfloor> else nat \<lceil>- log 2 x\<rceil>)"
  proof (cases "1 \<le> 2 * x")
    case True
    with small have "2 * x < 2" by simp
    with True pos have "log 2 (2 * x) < 1" by (simp add: log_less_iff)
    moreover from True have "0 \<le> log 2 (2 * x)" by simp
    ultimately have "\<lfloor>log 2 (2 * x)\<rfloor> = 0" by linarith
    moreover from neg have "0 < \<lceil>- log 2 x\<rceil>" by simp
    ultimately show ?thesis using True small by simp
  next
    case False
    have "\<lceil>- log 2 (2 * x)\<rceil> = \<lceil>- log 2 x\<rceil> - 1"
      unfolding dbl by (simp only: minus_add_distrib ceiling_diff_one add_uminus_conv_diff)
    moreover from neg have "0 < \<lceil>- log 2 x\<rceil>" by simp
    ultimately show ?thesis using False small by simp
  qed
qed

declare expo.simps [simp del]

definition pow2 :: "int \<Rightarrow> real" where
  "pow2 e = (if 0 \<le> e then 2 ^ nat e else 1 / 2 ^ nat (- e))"

definition round_half_even :: "real \<Rightarrow> int" where
  "round_half_even m =
     (let f = \<lfloor>m\<rfloor>
      in if m - of_int f < 1 / 2 then f
         else if 1 / 2 < m - of_int f then f + 1
         else if even f then f else f + 1)"

definition py_float :: "real \<Rightarrow> real" where
  "py_float x =
     (if x = 0 then 0
      else let u = pow2 (expo \<bar>x\<bar> - 52)
           in sgn x * of_int (round_half_even (\<bar>x\<bar> / u)) * u)"

text \<open>\<open>x + y\<close> and \<open>x - y\<close> on floats.\<close>

definition float_add :: "real \<Rightarrow> real \<Rightarrow> real" where
  "float_add x y = py_float (x + y)"

definition float_sub :: "real \<Rightarrow> real \<Rightarrow> real" where
  "float_sub x y = py_float (x - y)"

text \<open>
  The rest of \<open>BotConfig\<close>: the delays and the sleep chunk.
\<close>

definition STOP_CHECK_INTERVAL :: real where "STOP_CHECK_INTERVAL = py_float (1 / 10)"
definition DEFAULT_CLICK_DELAY :: real where "DEFAULT_CLICK_DELAY = py_float (2 / 10)"
definition SCREEN_CENTER_DELAY :: real where "SCREEN_CENTER_DELAY = 2"
definition WHEAT_X_OFFSET :: int where "WHEAT_X_OFFSET = - 100"
definition WHEAT_Y_OFFSET :: int where "WHEAT_Y_OFFSET = - 150"
definition HARVEST_X_OFFSET :: int where "HARVEST_X_OFFSET = - 260"
definition HARVEST_Y_OFFSET :: int where "HARVEST_Y_OFFSET = - 40"
definition INITIAL_PLANT_X_OFFSET :: int where "INITIAL_PLANT_X_OFFSET = 25"
definition INITIAL_PLANT_Y_OFFSET :: int where "INITIAL_PLANT_Y_OFFSET = 80"
definition INITIAL_HARVEST_X_OFFSET :: int where "INITIAL_HARVEST_X_OFFSET = 15"
definition INITIAL_HARVEST_Y_OFFSET :: int where "INITIAL_HARVEST_Y_OFFSET = 25"

text \<open>
  \<open>DetectionState\<close> of core/state.py: the fields the workflow task reads. The
  detection thread rewrites them every 0.3 seconds.
\<close>

record DetectionState =
  center :: "point option"
  field_contour :: "contour option"
  wheat_coverage :: real
  is_wheat_ready :: bool

text \<open>
  What the workflow task does to the outside: the pointer calls of \<open>pyautogui\<close> and
  each \<open>time.sleep\<close> with its duration.
\<close>

datatype action =
  Click int int
  | MoveTo int int
  | MouseDown
  | MouseUp
  | Sleep real

text \<open>
  The state of the workflow task: the shared \<open>BotState\<close>, the \<open>threading.Event\<close>
  \<open>stop_event\<close>, every value \<open>BotState\<close> took (\<open>hist\<close>, oldest first, one entry per
  assignment), the actions done so far (\<open>acts\<close>, oldest first), the lines logged so far
  (\<open>log_lines\<close>, only the line that starts an attempt to plant is modelled) and the
  number of calls made to the outside (\<open>cursor\<close>).
\<close>

record world =
  bot :: BotState
  stop_event :: bool
  hist :: "BotState list"
  acts :: "action list"
  log_lines :: "string list"
  cursor :: nat

text \<open>
  The environment is a script: what the \<open>k\<close>-th call to the outside meets. The call may
  raise; the user may press stop while it runs (\<open>stop_bot\<close> then runs in the GUI
  thread); a screen capture grabs \<open>frame\<close>; a read of the shared detection state sees
  \<open>shared\<close>; a function of the repository that is not modelled further returns
  \<open>answer\<close>.
\<close>

record 'px outcome =
  raises :: bool
  stop_pressed :: bool
  answer :: bool
  frame :: "'px image"
  shared :: DetectionState

type_synonym 'px script = "nat \<Rightarrow> 'px outcome"

text \<open>
  A call returns a value, raises an exception or never returns (\<open>Hang\<close>); the state is
  the one it leaves, for \<open>Hang\<close> the one it was called in.
\<close>

datatype 'a result = Ret 'a | Exn | Hang

type_synonym 'a prog = "world \<Rightarrow> 'a result \<times> world"

definition ret :: "'a \<Rightarrow> 'a prog" where
  "ret x = (\<lambda>w. (Ret x, w))"

definition bind :: "'a prog \<Rightarrow> ('a \<Rightarrow> 'b prog) \<Rightarrow> 'b prog" where
  "bind m f =
     (\<lambda>w. case m w of
            (Ret x, w') \<Rightarrow> f x w'
          | (Exn, w') \<Rightarrow> (Exn, w')
          | (Hang, w') \<Rightarrow> (Hang, w'))"

text \<open>\<open>try: m except Exception: h\<close>.\<close>

definition try_except :: "'a prog \<Rightarrow> 'a prog \<Rightarrow> 'a prog" where
  "try_except m h =
     (\<lambda>w. case m w of
            (Exn, w') \<Rightarrow> h w'
          | (Ret x, w') \<Rightarrow> (Ret x, w')
          | (Hang, w') \<Rightarrow> (Hang, w'))"

definition get_bot :: "BotState prog" where
  "get_bot = (\<lambda>w. (Ret (bot w), w))"

text \<open>\<open>self.stop_event.is_set()\<close>.\<close>

definition is_set :: "bool prog" where
  "is_set = (\<lambda>w. (Ret (stop_event w), w))"

text \<open>An assignment to a field of \<open>self.bot_state\<close>.\<close>

definition write_bot :: "(BotState \<Rightarrow> BotState) \<Rightarrow> world \<Rightarrow> world" where
  "write_bot f w = w\<lparr>bot := f (bot w), hist := hist w @ [f (bot w)]\<rparr>"

definition assign :: "(BotState \<Rightarrow> BotState) \<Rightarrow> unit prog" where
  "assign f = (\<lambda>w. (Ret (), write_bot f w))"

text \<open>
  \<open>BotController.stop_bot\<close>, as far as it touches the state: it sets the event, clears
  \<open>running\<close> and unlocks the path.
\<close>

definition stop_bot :: "world \<Rightarrow> world" where
  "stop_bot w =
     write_bot (\<lambda>s. s\<lparr>path_execution_active := False\<rparr>)
       (write_bot (\<lambda>s. s\<lparr>running := False\<rparr>) (w\<lparr>stop_event := True\<rparr>))"

text \<open>
  One call to the outside: the script's entry is consumed, a stop pressed meanwhile has
  taken effect when the call is over, and the call's actions are done unless it raises.
\<close>

definition outside :: "'px script \<Rightarrow> action list \<Rightarrow> 'px outcome prog" where
  "outside env as w =
     (let out = env (cursor w);
          w1 = (if stop_pressed out then stop_bot w else w);
          w2 = w1\<lparr>cursor := cursor w + 1\<rparr>
      in if raises out then (Exn, w2) else (Ret out, w2\<lparr>acts := acts w2 @ as\<rparr>))"

text \<open>The \<open>pyautogui\<close> calls.\<close>

definition pag :: "'px script \<Rightarrow> action \<Rightarrow> unit prog" where
  "pag env a = bind (outside env [a]) (\<lambda>_. ret ())"

text \<open>
  \<open>time.sleep(d)\<close>: it raises \<open>ValueError\<close> on a negative duration and nothing else;
  time passes, so a stop can be pressed meanwhile.
\<close>

definition time_sleep :: "'px script \<Rightarrow> real \<Rightarrow> unit prog" where
  "time_sleep env d w =
     (let out = env (cursor w);
          w1 = (if stop_pressed out then stop_bot w else w);
          w2 = w1\<lparr>cursor := cursor w + 1\<rparr>
      in if d < 0 then (Exn, w2) else (Ret (), w2\<lparr>acts := acts w2 @ [Sleep d]\<rparr>))"

text \<open>
  \<open>ScreenCapture.capture_screen\<close>: it returns an array whenever it returns, so the
  source's tests \<open>screen is not None\<close> hold.
\<close>

definition capture_screen :: "'px script \<Rightarrow> 'px image prog" where
  "capture_screen env = bind (outside env []) (\<lambda>out. ret (frame out))"

text \<open>A read of \<open>self.detection_state\<close> under the lock.\<close>

definition read_detection :: "'px script \<Rightarrow> DetectionState prog" where
  "read_detection env w = (Ret (shared (env (cursor w))), w\<lparr>cursor := cursor w + 1\<rparr>)"


text \<open>\<open>self.log\<close>, for the line that is modelled.\<close>

definition log :: "string \<Rightarrow> unit prog" where
  "log msg = (\<lambda>w. (Ret (), w\<lparr>log_lines := log_lines w @ [msg]\<rparr>))"

section \<open>bot/operations.py\<close>

text \<open>
  The loop of \<open>interruptible_sleep\<close>, with \<open>chunk_size = min(STOP_CHECK_INTERVAL, 1.0)\<close>;
  \<open>elapsed\<close> and \<open>total_time - elapsed\<close> are float arithmetic. The loop need not end:
  once \<open>elapsed\<close> is so large that adding a chunk rounds back to it, it runs until a
  stop; \<open>None\<close> is the run that never ends.
  \<open>DetectionManager._interruptible_sleep\<close> is the same loop with
  \<open>min(STOP_CHECK_INTERVAL, MAX_SLEEP_CHUNK)\<close>, the same number.
\<close>

partial_function (option) sleep_loop ::
  "'px script \<Rightarrow> real \<Rightarrow> real \<Rightarrow> world \<Rightarrow> (unit result \<times> world) option" where
  "sleep_loop env total_time elapsed w =
     (if elapsed < total_time \<and> \<not> stop_event w then
        case time_sleep env (min (min STOP_CHECK_INTERVAL 1) (float_sub total_time elapsed)) w of
          (Ret _, w') \<Rightarrow>
            sleep_loop env total_time
              (float_add elapsed (min (min STOP_CHECK_INTERVAL 1) (float_sub total_time elapsed))) w'
        | (Exn, w') \<Rightarrow> Some (Exn, w')
        | (Hang, w') \<Rightarrow> Some (Hang, w')
      else Some (Ret (), w))"

declare sleep_loop.simps [code]

text \<open>A loop as a call: the run that never ends is \<open>Hang\<close>.\<close>

definition run_loop :: "(world \<Rightarrow> ('a result \<times> world) option) \<Rightarrow> 'a prog" where
  "run_loop body = (\<lambda>w. case body w of Some r \<Rightarrow> r | None \<Rightarrow> (Hang, w))"

definition interruptible_sleep :: "'px script \<Rightarrow> real \<Rightarrow> bool prog" where
  "interruptible_sleep env total_time =
     bind (run_loop (sleep_loop env total_time 0)) (\<lambda>_. is_set)"


definition safe_click :: "'px script \<Rightarrow> int \<Rightarrow> int \<Rightarrow> bool prog" where
  "safe_click env x y =
     bind get_bot (\<lambda>s. bind is_set (\<lambda>stopped.
       if \<not> running s \<or> stopped then ret False
       else
         bind (pag env (Click x y)) (\<lambda>_.
         bind (interruptible_sleep env DEFAULT_CLICK_DELAY) (\<lambda>stopped.
         ret (\<not> stopped)))))"

definition safe_move :: "'px script \<Rightarrow> int \<Rightarrow> int \<Rightarrow> bool prog" where
  "safe_move env x y =
     bind get_bot (\<lambda>s. bind is_set (\<lambda>stopped.
       if \<not> running s \<or> stopped then ret False
       else bind (pag env (MoveTo x y)) (\<lambda>_. ret True)))"

text \<open>
  The loop \<open>for i, (x, y) in enumerate(path)\<close> of \<open>plant_wheat\<close> and \<open>harvest_wheat\<close>;
  both \<open>break\<close>s end it.
\<close>

fun follow_path :: "'px script \<Rightarrow> point list \<Rightarrow> unit prog" where
  "follow_path env [] = ret ()"
| "follow_path env ((x, y) # path) =
     bind get_bot (\<lambda>s. bind is_set (\<lambda>stopped.
       if \<not> running s \<or> stopped then ret ()
       else
         bind (safe_move env x y) (\<lambda>moved.
         if \<not> moved then ret () else follow_path env path)))"

text \<open>
  \<open>PathGenerator.create_linear_path\<close> as the drag calls it: a \<open>ValueError\<close> is an
  exception of the caller.
\<close>

definition linear_path ::
  "point_polygon_test \<Rightarrow> int \<Rightarrow> int \<Rightarrow> contour option \<Rightarrow> string \<Rightarrow> point list prog" where
  "linear_path ppt cx cy contour path_type =
     (\<lambda>w. case create_linear_path ppt cx cy contour path_type of
            Inl e \<Rightarrow> (Exn, w)
          | Inr path \<Rightarrow> (Ret path, w))"

text \<open>The body of the \<open>try\<close> of \<open>plant_wheat\<close>.\<close>

definition plant_drag ::
  "point_polygon_test \<Rightarrow> 'px script \<Rightarrow> int \<Rightarrow> int \<Rightarrow> contour option \<Rightarrow> bool prog" where
  "plant_drag ppt env cx cy contour =
     bind (case contour of
             None \<Rightarrow> ret ()
           | Some c \<Rightarrow>
               bind (capture_screen env) (\<lambda>screen.
               bind (read_detection env) (\<lambda>d.
               let updated_contour =
                     (if field_contour d \<noteq> None then field_contour d else contour)
               in bind (linear_path ppt cx cy updated_contour ''plant'') (\<lambda>planting_path.
                  bind (assign (\<lambda>s. s\<lparr>path_execution_active := True\<rparr>)) (\<lambda>_.
                  follow_path env planting_path))))) (\<lambda>_.
     bind (safe_move env cx cy) (\<lambda>_.
     bind (pag env MouseUp) (\<lambda>_.
     bind (assign (\<lambda>s. s\<lparr>path_execution_active := False\<rparr>)) (\<lambda>_.
     ret True))))"

text \<open>The \<open>except Exception\<close> handler of \<open>plant_wheat\<close> and of \<open>harvest_wheat\<close>.\<close>

definition drag_handler :: "'px script \<Rightarrow> bool prog" where
  "drag_handler env =
     bind (pag env MouseUp) (\<lambda>_.
     bind (assign (\<lambda>s. s\<lparr>path_execution_active := False\<rparr>)) (\<lambda>_.
     ret False))"

definition plant_wheat ::
  "point_polygon_test \<Rightarrow> 'px script \<Rightarrow> int \<Rightarrow> int \<Rightarrow> contour option \<Rightarrow> bool prog" where
  "plant_wheat ppt env cx cy contour =
     bind get_bot (\<lambda>s.
     if \<not> running s then ret False
     else
       bind (safe_click env cx cy) (\<lambda>clicked.
       if \<not> clicked then ret False
       else
         bind (interruptible_sleep env SCREEN_CENTER_DELAY) (\<lambda>stopped.
         if stopped then ret False
         else
           bind (capture_screen env) (\<lambda>screen.
           bind (read_detection env) (\<lambda>d.
           let (cx, cy) = (case center d of Some updated_center \<Rightarrow> updated_center
                           | None \<Rightarrow> (cx, cy));
               wheat_x = cx + WHEAT_X_OFFSET;
               wheat_y = cy + WHEAT_Y_OFFSET
           in bind (safe_click env wheat_x wheat_y) (\<lambda>clicked.
              if \<not> clicked then ret False
              else
                bind (time_sleep env (py_float (8 / 10))) (\<lambda>_.
                bind (pag env MouseDown) (\<lambda>_.
                let initial_plant_x = cx + INITIAL_PLANT_X_OFFSET;
                    initial_plant_y = cy + INITIAL_PLANT_Y_OFFSET
                in bind (safe_move env initial_plant_x initial_plant_y) (\<lambda>moved.
                   if \<not> moved then bind (pag env MouseUp) (\<lambda>_. ret False)
                   else
                     bind (time_sleep env (py_float (2 / 10))) (\<lambda>_.
                     try_except (plant_drag ppt env cx cy contour)
                       (drag_handler env)))))))))))"

text \<open>The body of the \<open>try\<close> of \<open>harvest_wheat\<close>.\<close>

definition harvest_drag ::
  "point_polygon_test \<Rightarrow> 'px script \<Rightarrow> int \<Rightarrow> int \<Rightarrow> contour option \<Rightarrow> bool prog" where
  "harvest_drag ppt env cx cy contour =
     bind (case contour of
             None \<Rightarrow> ret (cx, cy)
           | Some c \<Rightarrow>
               bind (capture_screen env) (\<lambda>screen.
               bind (read_detection env) (\<lambda>d.
               let updated_contour =
                     (if field_contour d \<noteq> None then field_contour d else contour);
                   (cx, cy) = (case center d of Some updated_center \<Rightarrow> updated_center
                               | None \<Rightarrow> (cx, cy))
               in bind (linear_path ppt cx cy updated_contour ''harvest'') (\<lambda>harvest_path.
                  bind (assign (\<lambda>s. s\<lparr>path_execution_active := True\<rparr>)) (\<lambda>_.
                  bind (follow_path env harvest_path) (\<lambda>_.
                  ret (cx, cy))))))) (\<lambda>(cx, cy).
     bind (safe_move env cx cy) (\<lambda>_.
     bind (pag env MouseUp) (\<lambda>_.
     bind (assign (\<lambda>s. s\<lparr>path_execution_active := False\<rparr>)) (\<lambda>_.
     ret True))))"

definition harvest_wheat ::
  "point_polygon_test \<Rightarrow> 'px script \<Rightarrow> int \<Rightarrow> int \<Rightarrow> contour option \<Rightarrow> bool prog" where
  "harvest_wheat ppt env cx cy contour =
     bind get_bot (\<lambda>s.
     if \<not> running s then ret False
     else
       bind (safe_click env cx cy) (\<lambda>clicked.
       if \<not> clicked then ret False
       else
         let harvest_x = cx + HARVEST_X_OFFSET;
             harvest_y = cy + HARVEST_Y_OFFSET
         in bind (safe_move env harvest_x harvest_y) (\<lambda>moved.
            if \<not> moved then ret False
            else
              bind (time_sleep env (py_float (8 / 10))) (\<lambda>_.
              bind (pag env MouseDown) (\<lambda>_.
              let initial_harvest_x = cx + INITIAL_HARVEST_X_OFFSET;
                  initial_harvest_y = cy + INITIAL_HARVEST_Y_OFFSET
              in bind (safe_move env initial_harvest_x initial_harvest_y) (\<lambda>moved.
                 if \<not> moved then bind (pag env MouseUp) (\<lambda>_. ret False)
                 else
                   bind (time_sleep env (py_float (2 / 10))) (\<lambda>_.
                   try_except (harvest_drag ppt env cx cy contour)
                     (drag_handler env))))))))"


section \<open>bot/market.py: the market operations\<close>
















section \<open>gui/bot\_controller.py\<close>























section \<open>Judgements about the task\<close>


text \<open>The attempts to plant that the log shows.\<close>

definition attempts_logged :: "world \<Rightarrow> nat" where
  "attempts_logged w = length (filter (\<lambda>line. line = ''Planting attempt'') (log_lines w))"




text \<open>An assignment that never clears \<open>silo_is_full\<close>.\<close>

definition keeps_silo :: "(BotState \<Rightarrow> BotState) \<Rightarrow> bool" where
  "keeps_silo f = (\<forall>s. silo_is_full s \<longrightarrow> silo_is_full (f s))"




text \<open>\<open>m\<close> never raises.\<close>

definition returns :: "'a prog \<Rightarrow> bool" where
  "returns m = (\<forall>w. fst (m w) \<noteq> Exn)"

text \<open>No call to the outside raises.\<close>

definition calm :: "'px script \<Rightarrow> bool" where
  "calm env = (\<forall>k. \<not> raises (env k))"

text \<open>
  The detection thread always reports a field whose coverage is below the 80 percent
  that end the planting.
\<close>

definition never_planted :: "'px script \<Rightarrow> bool" where
  "never_planted env =
     (\<forall>k. center (shared (env k)) \<noteq> None \<and> wheat_coverage (shared (env k)) < 80)"

section \<open>Concrete environments\<close>

definition still :: DetectionState where
  "still = \<lparr>center = None, field_contour = None, wheat_coverage = 45, is_wheat_ready = False\<rparr>"

text \<open>Nothing raises, nobody presses stop, the detection thread reports no field.\<close>

definition quiet :: "label script" where
  "quiet = (\<lambda>k. \<lparr>raises = False, stop_pressed = False, answer = True,
                   frame = screen1, shared = still\<rparr>)"

text \<open>
  From the \<open>n\<close>-th call on, every call to the outside raises: what \<open>pyautogui\<close> does
  once its fail-safe has triggered (the pointer in a corner of the screen).
\<close>

definition fail_safe_from :: "nat \<Rightarrow> label script" where
  "fail_safe_from n = (\<lambda>k. (quiet k)\<lparr>raises := (n \<le> k)\<rparr>)"


definition started :: world where
  "started =
     \<lparr>bot = \<lparr>running = True, detection_active = True, path_execution_active = False,
              silo_is_full = False, wheat_sold_this_session = False\<rparr>,
      stop_event = False, hist = [], acts = [], log_lines = [], cursor = 0\<rparr>"


section \<open>Properties of the path generator\<close>

lemma horizontal_line_inside:
  "p \<in> set (horizontal_line ppt contour min_x max_x line_step y) \<Longrightarrow>
     inside ppt contour (fst p) (snd p)"
  by (auto simp: horizontal_line_def Let_def split: if_splits)

lemma vertical_line_inside:
  "p \<in> set (vertical_line ppt contour min_y max_y step_size x) \<Longrightarrow>
     inside ppt contour (fst p) (snd p)"
  by (auto simp: vertical_line_def Let_def split: if_splits)

lemma path_lines_inside:
  assumes "p \<in> set (concat (map (horizontal_line ppt contour min_x max_x line_step) ys)
             @ concat (map (vertical_line ppt contour min_y max_y step_size) xs))"
  shows "inside ppt contour (fst p) (snd p)"
  using assms by (auto dest: horizontal_line_inside vertical_line_inside)

text \<open>
  C3. For every centre, every mode and every boundary contour, \<open>None\<close> included,
  \<open>create_linear_path\<close> returns a non-empty path whose first and last points are the
  centre, and for \<open>None\<close> the path is the single point \<open>[(cx, cy)]\<close>. A contour is an
  array with at least one point, as \<open>cv2.findContours\<close> produces them: on an array
  without points \<open>np.min\<close> raises.
\<close>

theorem create_linear_path_endpoints:
  assumes "contour \<noteq> Some []"
  shows "\<exists>path. create_linear_path ppt cx cy contour path_type = Inr path \<and> path \<noteq> []
           \<and> hd path = (cx, cy) \<and> last path = (cx, cy)
           \<and> (contour = None \<longrightarrow> path = [(cx, cy)])"
  using assms by (cases contour) (simp_all add: create_linear_path_def Let_def)

theorem create_linear_path_endpoints_witness:
  "Some square100 \<noteq> Some []
   \<and> (\<exists>path. create_linear_path box_test 50 50 (Some square100) ''harvest'' = Inr path
         \<and> path \<noteq> [] \<and> hd path = (50, 50) \<and> last path = (50, 50))
   \<and> create_linear_path box_test 50 50 None ''harvest'' = Inr [(50, 50)]"
proof -
  have ne: "Some square100 \<noteq> Some []" by (simp add: square100_def)
  have none: "(None :: contour option) \<noteq> Some []" by simp
  from create_linear_path_endpoints [OF ne, of box_test 50 50 "''harvest''"]
    create_linear_path_endpoints [OF none, of box_test 50 50 "''harvest''"] ne
  show ?thesis by auto
qed

text \<open>
  C4. For every boundary contour and every mode, every point of the returned path
  other than its first and its last (the two centre endpoints) passed the containment
  test: \<open>cv2.pointPolygonTest\<close> is non-negative there.
\<close>

theorem create_linear_path_inside:
  assumes "create_linear_path ppt cx cy (Some contour) path_type = Inr path"
  shows "\<forall>p \<in> set (butlast (tl path)). ppt contour (real_of_int (fst p), real_of_int (snd p)) \<ge> 0"
proof
  fix p
  assume p: "p \<in> set (butlast (tl path))"
  from assms obtain hs vs min_x max_x line_step ys min_y max_y step_size xs where
    path: "path = [(cx, cy)] @ hs @ vs @ [(cx, cy)]"
    and hs: "hs = concat (map (horizontal_line ppt contour min_x max_x line_step) ys)"
    and vs: "vs = concat (map (vertical_line ppt contour min_y max_y step_size) xs)"
    by (auto simp: create_linear_path_def Let_def split: if_splits)
  have "butlast (tl path) = hs @ vs"
    by (simp add: path butlast_append)
  with p have "p \<in> set (hs @ vs)" by simp
  then have "inside ppt contour (fst p) (snd p)"
    unfolding hs vs by (rule path_lines_inside)
  then show "ppt contour (real_of_int (fst p), real_of_int (snd p)) \<ge> 0"
    by (simp add: inside_def)
qed

theorem create_linear_path_inside_witness:
  "create_linear_path box_test 50 50 (Some square100) ''plant'' = Inr
     [(50, 50), (0, 22), (40, 22), (80, 22), (0, 67), (40, 67), (80, 67),
      (22, 0), (22, 50), (22, 100), (50, 50)]
   \<and> list_all (\<lambda>p. box_test square100 (real_of_int (fst p), real_of_int (snd p)) \<ge> 0)
         [(0, 22), (40, 22), (80, 22), (0, 67), (40, 67), (80, 67),
          (22, 0), (22, 50), (22, 100)]"
proof -
  have run: "create_linear_path box_test 50 50 (Some square100) ''plant'' = Inr
     [(50, 50), (0, 22), (40, 22), (80, 22), (0, 67), (40, 67), (80, 67),
      (22, 0), (22, 50), (22, 100), (50, 50)]"
    by code_simp
  from create_linear_path_inside [OF run] show ?thesis
    using run by (simp add: list_all_iff)
qed

section \<open>Properties of template matching\<close>

lemma match_template_located:
  "match_template c threshold img tmpl = (x, y, conf) \<Longrightarrow>
     (x \<noteq> None) = (conf \<ge> threshold) \<and> (y \<noteq> None) = (conf \<ge> threshold)"
  by (auto simp: match_template_def Let_def split: prod.splits if_splits)

lemma find_template_located:
  assumes "find_template tm screen name threshold = (x, y, conf)" "x \<noteq> None \<or> y \<noteq> None"
  shows "conf \<ge> threshold"
proof (cases "templates tm name")
  case None
  with assms show ?thesis by (simp add: find_template_def)
next
  case (Some template)
  obtain x1 y1 c1 where m1: "match_template (cv tm) threshold screen template = (x1, y1, c1)"
    by (cases "match_template (cv tm) threshold screen template") auto
  show ?thesis
  proof (cases "x1 = None")
    case True
    with assms Some m1 have
      "match_template (cv tm) threshold (cvtColor_gray (cv tm) screen)
         (cvtColor_gray (cv tm) template) = (x, y, conf)"
      by (simp add: find_template_def Let_def)
    from match_template_located [OF this] assms(2) show ?thesis by auto
  next
    case False
    with assms Some m1 have "(x1, y1, c1) = (x, y, conf)"
      by (simp add: find_template_def Let_def)
    with match_template_located [OF m1] assms(2) show ?thesis by auto
  qed
qed

lemma match_template_truthy:
  assumes "match_template c threshold img tmpl = (x, y, conf)"
    and "2 \<le> rows tmpl" "2 \<le> cols tmpl" "conf \<ge> threshold"
  shows "truthy x \<and> truthy y"
proof -
  obtain v l where ml: "match_max c img tmpl = (v, l)" by (cases "match_max c img tmpl")
  from assms(1) ml have v: "v = conf"
    by (auto simp: match_template_def Let_def split: if_splits)
  from assms(1,4) ml v have x: "x = Some (int (fst l) + int (cols tmpl) div 2)"
    and y: "y = Some (int (snd l) + int (rows tmpl) div 2)"
    by (auto simp: match_template_def Let_def split: if_splits)
  from assms(2,3) have "0 < int (cols tmpl) div 2" "0 < int (rows tmpl) div 2"
    by (simp_all add: pos_imp_zdiv_pos_iff)
  then show ?thesis
    unfolding x y by simp
qed

lemma find_template_truthy:
  assumes ft: "find_template tm screen name threshold = (x, y, conf)"
    and shape: "\<forall>t. templates tm name = Some t \<longrightarrow> 2 \<le> rows t \<and> 2 \<le> cols t"
    and pos: "0 < threshold" and conf: "conf \<ge> threshold"
  shows "truthy x \<and> truthy y"
proof (cases "templates tm name")
  case None
  with ft pos conf show ?thesis by (simp add: find_template_def)
next
  case (Some template)
  with shape have sh: "2 \<le> rows template" "2 \<le> cols template" by auto
  obtain x1 y1 c1 where m1: "match_template (cv tm) threshold screen template = (x1, y1, c1)"
    by (cases "match_template (cv tm) threshold screen template") auto
  show ?thesis
  proof (cases "x1 = None")
    case True
    with ft Some m1 have g:
      "match_template (cv tm) threshold (cvtColor_gray (cv tm) screen)
         (cvtColor_gray (cv tm) template) = (x, y, conf)"
      by (simp add: find_template_def Let_def)
    have "2 \<le> rows (cvtColor_gray (cv tm) template)" "2 \<le> cols (cvtColor_gray (cv tm) template)"
      using sh by (simp_all add: cvtColor_gray_def)
    from match_template_truthy [OF g this conf] show ?thesis .
  next
    case False
    with ft Some m1 have "(x1, y1, c1) = (x, y, conf)"
      by (simp add: find_template_def Let_def)
    with m1 have "match_template (cv tm) threshold screen template = (x, y, conf)" by simp
    from match_template_truthy [OF this sh conf] show ?thesis .
  qed
qed

lemma analyze_current_location_card:
  "card (dom (analyze_current_location tm screen)) \<le> 1"
  by (simp add: analyze_current_location_def Let_def split: prod.splits)

lemma analyze_current_location_shape:
  "analyze_current_location tm screen = Map.empty
   \<or> (\<exists>k v. analyze_current_location tm screen = [k \<mapsto> v])"
proof -
  have one: "\<exists>k' v'. [k \<mapsto> v] = [k' \<mapsto> v']" for k :: string and v :: real
    by blast
  show ?thesis
    by (simp add: analyze_current_location_def Let_def one split: prod.splits)
qed

lemma analyze_current_location_finite:
  "finite (dom (analyze_current_location tm screen))"
  using analyze_current_location_shape [of tm screen] by auto

lemma analyze_current_location_silo:
  assumes "find_template tm screen ''silo'' SILO_POPUP_THRESHOLD = (silo_x, silo_y, silo_conf)"
    and "truthy silo_x" "truthy silo_y" "silo_conf \<ge> SILO_POPUP_THRESHOLD"
  shows "analyze_current_location tm screen = [''silo_popup'' \<mapsto> silo_conf]"
  using assms by (simp add: analyze_current_location_def Let_def split: prod.splits)

text \<open>
  C6, as the code has it. For a loaded template, \<open>find_template\<close> returns the colour
  match when its score reaches the threshold; otherwise it returns the grayscale match,
  located when that score reaches the threshold and without a location when it does
  not. The confidence of a result without location is the grayscale score: the colour
  score is dropped, also when it is the larger one.
\<close>

theorem find_template_fallback:
  assumes "templates tm name = Some template"
    and "match_max (cv tm) screen template = (color_val, color_loc)"
    and "match_max (cv tm) (cvtColor_gray (cv tm) screen) (cvtColor_gray (cv tm) template)
           = (gray_val, gray_loc)"
  shows "find_template tm screen name threshold =
           (if color_val \<ge> threshold then
              (Some (int (fst color_loc) + int (cols template) div 2),
               Some (int (snd color_loc) + int (rows template) div 2), color_val)
            else if gray_val \<ge> threshold then
              (Some (int (fst gray_loc) + int (cols template) div 2),
               Some (int (snd gray_loc) + int (rows template) div 2), gray_val)
            else (None, None, gray_val))"
  using assms
  by (simp add: find_template_def match_template_def cvtColor_gray_def Let_def)

theorem find_template_fallback_witness:
  "templates faint_silo ''silo'' = Some (icon ''silo'')
   \<and> match_max (cv faint_silo) screen1 (icon ''silo'') = (6 / 10, (100, 200))
   \<and> match_max (cv faint_silo) (cvtColor_gray (cv faint_silo) screen1)
        (cvtColor_gray (cv faint_silo) (icon ''silo'')) = (3 / 10, (5, 5))
   \<and> find_template faint_silo screen1 ''silo'' (1 / 2) = (Some 130, Some 220, 6 / 10)
   \<and> find_template faint_silo screen1 ''silo'' (7 / 10) = (None, None, 3 / 10)"
proof -
  have t: "templates faint_silo ''silo'' = Some (icon ''silo'')"
    by (simp add: faint_silo_def)
  have c: "match_max (cv faint_silo) screen1 (icon ''silo'') = (6 / 10, (100, 200))"
    by (simp add: faint_silo_def table_cv_def screen1_def icon_def)
  have g: "match_max (cv faint_silo) (cvtColor_gray (cv faint_silo) screen1)
        (cvtColor_gray (cv faint_silo) (icon ''silo'')) = (3 / 10, (5, 5))"
    by (simp add: faint_silo_def table_cv_def screen1_def icon_def cvtColor_gray_def)
  have cols: "cols (icon ''silo'') = 60" and rows: "rows (icon ''silo'') = 40"
    by (simp_all add: icon_def)
  show ?thesis
    using t c g find_template_fallback [OF t c g, of "1 / 2"]
      find_template_fallback [OF t c g, of "7 / 10"]
    by (simp add: cols rows)
qed

text \<open>
  C6 as stated fails: with a colour score of 0.6 and a grayscale score of 0.3 under the
  threshold 0.7, the result without location carries 0.3, not the maximum 0.6.
\<close>

theorem find_template_best_confidence_counterexample:
  "fst (match_max (cv faint_silo) screen1 (icon ''silo'')) = 6 / 10
   \<and> fst (match_max (cv faint_silo) (cvtColor_gray (cv faint_silo) screen1)
            (cvtColor_gray (cv faint_silo) (icon ''silo''))) = 3 / 10
   \<and> find_template faint_silo screen1 ''silo'' (7 / 10) = (None, None, 3 / 10)
   \<and> (3 / 10 :: real) \<noteq> max (6 / 10) (3 / 10)"
  by (simp add: find_template_def match_template_def faint_silo_def table_cv_def screen1_def
      icon_def cvtColor_gray_def)

section \<open>Properties of the location classifier\<close>

text \<open>
  C5. For every frame the classifier returns at most one entry (the mapping is empty or
  has exactly one key, so its domain is finite with at most one element), and whenever
  the silo template is detected with a confidence at or above its threshold, that entry
  is \<open>silo_popup\<close>, whatever the other templates score. The silo template is an image of
  at least two by two pixels, so that the centre \<open>find_template\<close> reports has non-zero
  coordinates, which the classifier tests by truthiness.
\<close>

theorem analyze_current_location_silo_priority:
  assumes "\<forall>t. templates tm ''silo'' = Some t \<longrightarrow> 2 \<le> rows t \<and> 2 \<le> cols t"
  shows "(analyze_current_location tm screen = Map.empty
            \<or> (\<exists>k v. analyze_current_location tm screen = [k \<mapsto> v]))
         \<and> finite (dom (analyze_current_location tm screen))
         \<and> card (dom (analyze_current_location tm screen)) \<le> 1
         \<and> (\<forall>silo_x silo_y silo_conf.
               find_template tm screen ''silo'' SILO_POPUP_THRESHOLD = (silo_x, silo_y, silo_conf)
               \<and> silo_conf \<ge> SILO_POPUP_THRESHOLD
               \<longrightarrow> analyze_current_location tm screen = [''silo_popup'' \<mapsto> silo_conf])"
proof (intro conjI allI impI)
  show "analyze_current_location tm screen = Map.empty
          \<or> (\<exists>k v. analyze_current_location tm screen = [k \<mapsto> v])"
    by (rule analyze_current_location_shape)
next
  show "finite (dom (analyze_current_location tm screen))"
    by (rule analyze_current_location_finite)
next
  show "card (dom (analyze_current_location tm screen)) \<le> 1"
    by (rule analyze_current_location_card)
next
  fix silo_x silo_y silo_conf
  assume a: "find_template tm screen ''silo'' SILO_POPUP_THRESHOLD = (silo_x, silo_y, silo_conf)
             \<and> silo_conf \<ge> SILO_POPUP_THRESHOLD"
  have pos: "0 < SILO_POPUP_THRESHOLD" by (simp add: SILO_POPUP_THRESHOLD_def)
  from a have ft: "find_template tm screen ''silo'' SILO_POPUP_THRESHOLD = (silo_x, silo_y, silo_conf)"
    and conf: "silo_conf \<ge> SILO_POPUP_THRESHOLD" by simp_all
  from find_template_truthy [OF ft assms pos conf]
  show "analyze_current_location tm screen = [''silo_popup'' \<mapsto> silo_conf]"
    using analyze_current_location_silo [OF ft _ _ conf] by simp
qed

theorem analyze_current_location_silo_priority_witness:
  "templates silo_over_main ''silo'' = Some (icon ''silo'')
   \<and> rows (icon ''silo'') = 40 \<and> cols (icon ''silo'') = 60
   \<and> find_template silo_over_main screen1 ''silo'' SILO_POPUP_THRESHOLD = (Some 130, Some 220, 9 / 10)
   \<and> is_on_main_page silo_over_main screen1 = (True, 95 / 100)
   \<and> finite (dom (analyze_current_location silo_over_main screen1))
   \<and> card (dom (analyze_current_location silo_over_main screen1)) \<le> 1
   \<and> analyze_current_location silo_over_main screen1 = [''silo_popup'' \<mapsto> 9 / 10]"
proof -
  have shape: "\<forall>t. templates silo_over_main ''silo'' = Some t \<longrightarrow> 2 \<le> rows t \<and> 2 \<le> cols t"
    by (simp add: silo_over_main_def icon_def)
  have ft: "find_template silo_over_main screen1 ''silo'' SILO_POPUP_THRESHOLD
              = (Some 130, Some 220, 9 / 10)"
    by code_simp
  have main: "is_on_main_page silo_over_main screen1 = (True, 95 / 100)"
    by code_simp
  have conf: "(9 / 10 :: real) \<ge> SILO_POPUP_THRESHOLD"
    by (simp add: SILO_POPUP_THRESHOLD_def)
  have tmpl: "templates silo_over_main ''silo'' = Some (icon ''silo'')"
    "rows (icon ''silo'') = 40" "cols (icon ''silo'') = 60"
    by (simp_all add: silo_over_main_def icon_def)
  from analyze_current_location_silo_priority [OF shape, of screen1] ft conf main tmpl
  show ?thesis by blast
qed

text \<open>
  C10. When \<open>check_silo_full_template\<close> detects the popup, that is when both coordinates
  of the silo detection are truthy, with a confidence at or above
  \<open>SILO_POPUP_THRESHOLD\<close>, it returns \<open>True\<close>, sets \<open>silo_is_full\<close> and resets
  \<open>wheat_sold_this_session\<close>, whatever its value was; otherwise it returns \<open>False\<close> and
  the \<open>BotState\<close> is unchanged.
\<close>

theorem check_silo_full_template_effect:
  assumes "find_template tm screen ''silo'' SILO_POPUP_THRESHOLD = (silo_x, silo_y, confidence)"
    and "check_silo_full_template tm screen s = (detected, s')"
  shows "detected = (truthy silo_x \<and> truthy silo_y)
         \<and> (detected \<longrightarrow>
              confidence \<ge> SILO_POPUP_THRESHOLD
              \<and> s' = s\<lparr>silo_is_full := True, wheat_sold_this_session := False\<rparr>)
         \<and> (\<not> detected \<longrightarrow> s' = s)"
proof -
  have "confidence \<ge> SILO_POPUP_THRESHOLD" if "truthy silo_x"
  proof -
    from that have "silo_x \<noteq> None" by (cases silo_x) auto
    with find_template_located [OF assms(1)] show ?thesis by simp
  qed
  with assms show ?thesis
    by (cases "truthy silo_x \<and> truthy silo_y") (auto simp: check_silo_full_template_def)
qed

theorem check_silo_full_template_effect_witness:
  "find_template silo_over_main screen1 ''silo'' SILO_POPUP_THRESHOLD
     = (Some 130, Some 220, 9 / 10)
   \<and> check_silo_full_template silo_over_main screen1
        \<lparr>running = True, detection_active = True, path_execution_active = False,
           silo_is_full = False, wheat_sold_this_session = True\<rparr>
      = (True,
         \<lparr>running = True, detection_active = True, path_execution_active = False,
            silo_is_full = True, wheat_sold_this_session = False\<rparr>)
   \<and> find_template faint_silo screen1 ''silo'' SILO_POPUP_THRESHOLD = (None, None, 3 / 10)
   \<and> check_silo_full_template faint_silo screen1
        \<lparr>running = True, detection_active = True, path_execution_active = False,
           silo_is_full = False, wheat_sold_this_session = True\<rparr>
      = (False,
         \<lparr>running = True, detection_active = True, path_execution_active = False,
            silo_is_full = False, wheat_sold_this_session = True\<rparr>)"
proof -
  let ?s = "\<lparr>running = True, detection_active = True, path_execution_active = False,
              silo_is_full = False, wheat_sold_this_session = True\<rparr>"
  have ft1: "find_template silo_over_main screen1 ''silo'' SILO_POPUP_THRESHOLD
               = (Some 130, Some 220, 9 / 10)"
    by code_simp
  have ft2: "find_template faint_silo screen1 ''silo'' SILO_POPUP_THRESHOLD
               = (None, None, 3 / 10)"
    by code_simp
  have c1: "check_silo_full_template silo_over_main screen1 ?s
              = (fst (check_silo_full_template silo_over_main screen1 ?s),
                 snd (check_silo_full_template silo_over_main screen1 ?s))"
    by simp
  have c2: "check_silo_full_template faint_silo screen1 ?s
              = (fst (check_silo_full_template faint_silo screen1 ?s),
                 snd (check_silo_full_template faint_silo screen1 ?s))"
    by simp
  from check_silo_full_template_effect [OF ft1 c1] check_silo_full_template_effect [OF ft2 c2]
  show ?thesis
    using ft1 ft2 by (simp add: prod_eq_iff)
qed

section \<open>Properties of the field detector\<close>

lemma py_max_key_fold:
  fixes key :: "'a \<Rightarrow> real"
  shows "fold (\<lambda>y best. if key y > key best then y else best) xs x \<in> set (x # xs)
   \<and> (\<forall>c \<in> set (x # xs).
         key c \<le> key (fold (\<lambda>y best. if key y > key best then y else best) xs x))"
proof (induction xs arbitrary: x)
  case Nil
  show ?case by simp
next
  case (Cons a xs)
  let ?b = "if key a > key x then a else x"
  from Cons.IH [of ?b] show ?case
    by (auto split: if_splits)
qed

lemma py_max_key_largest:
  fixes key :: "'a \<Rightarrow> real"
  assumes "xs \<noteq> []"
  shows "py_max_key key xs \<in> set xs \<and> (\<forall>c \<in> set xs. key c \<le> key (py_max_key key xs))"
proof -
  from assms obtain x ys where "xs = x # ys" by (cases xs) auto
  with py_max_key_fold [of key ys x] show ?thesis by simp
qed

text \<open>
  C8, as the code has it. \<open>detect_field\<close> accepts the largest contour of the combined
  mask exactly when its area lies strictly between 1000 and half the frame area, and
  then returns the centroid \<open>get_centroid\<close> computes and the contour; it returns
  \<open>(None, None, None)\<close> when there is no contour or the area is outside that open
  interval. The largest contour is one of the contours, of maximal area.
\<close>

theorem detect_field_open_interval:
  "detect_field sc screen =
     (let contours = mask_contours sc screen;
          largest_contour = py_max_key (contourArea sc) contours
      in if contours \<noteq> []
            \<and> 1000 < contourArea sc largest_contour
            \<and> contourArea sc largest_contour < real (rows screen) * real (cols screen) * (5 / 10)
         then (fst (get_centroid sc largest_contour), snd (get_centroid sc largest_contour),
               Some largest_contour)
         else (None, None, None))
   \<and> (mask_contours sc screen \<noteq> [] \<longrightarrow>
        py_max_key (contourArea sc) (mask_contours sc screen) \<in> set (mask_contours sc screen)
        \<and> (\<forall>c \<in> set (mask_contours sc screen).
              contourArea sc c
                \<le> contourArea sc (py_max_key (contourArea sc) (mask_contours sc screen))))"
  using py_max_key_largest [of "mask_contours sc screen" "contourArea sc"]
  by (simp add: detect_field_def Let_def split: prod.splits)

theorem detect_field_open_interval_witness:
  "mask_contours (box_soil_cv [box_40_25, box_50_40]) small_screen \<noteq> []
   \<and> py_max_key (contourArea (box_soil_cv [box_40_25, box_50_40])) [box_40_25, box_50_40]
       = box_50_40
   \<and> contourArea (box_soil_cv [box_40_25, box_50_40]) box_50_40 = 2000
   \<and> detect_field (box_soil_cv [box_40_25, box_50_40]) small_screen
       = (Some 35, Some 30, Some box_50_40)"
proof -
  let ?sc = "box_soil_cv [box_40_25, box_50_40]"
  have cs: "mask_contours ?sc small_screen = [box_40_25, box_50_40]"
    by (simp add: box_soil_cv_def)
  have area: "contourArea ?sc box_50_40 = 2000" "contourArea ?sc box_40_25 = 1000"
    by (simp_all add: box_soil_cv_def box_area_def box_50_40_def box_40_25_def)
  have largest: "py_max_key (contourArea ?sc) [box_40_25, box_50_40] = box_50_40"
    by (simp add: area)
  have centroid: "get_centroid ?sc box_50_40 = (Some 35, Some 30)"
    by (simp add: get_centroid_def box_soil_cv_def box_area_def box_50_40_def py_int_def)
  have size: "real (rows small_screen) * real (cols small_screen) * (5 / 10) = 5000"
    by (simp add: small_screen_def)
  have "detect_field ?sc small_screen = (Some 35, Some 30, Some box_50_40)"
    using detect_field_open_interval [of ?sc small_screen]
    unfolding cs Let_def largest area centroid size by simp
  with cs largest area show ?thesis by simp
qed

text \<open>
  C8 as stated fails at the ends of the interval: a largest contour of area exactly
  1000, in a frame of 100 by 100 pixels, lies in the closed interval from 1000 to 5000
  and is rejected.
\<close>

theorem detect_field_closed_interval_counterexample:
  "mask_contours (box_soil_cv [box_40_25]) small_screen = [box_40_25]
   \<and> contourArea (box_soil_cv [box_40_25]) box_40_25 = 1000
   \<and> (1000 :: real) \<le> 1000
   \<and> (1000 :: real) \<le> 5 / 10 * (real (rows small_screen) * real (cols small_screen))
   \<and> detect_field (box_soil_cv [box_40_25]) small_screen = (None, None, None)"
  by (simp add: detect_field_def box_soil_cv_def box_area_def box_40_25_def small_screen_def)

section \<open>Properties of the sleeps\<close>

lemma stop_bot_fields [simp]:
  "acts (stop_bot w) = acts w" "cursor (stop_bot w) = cursor w" "stop_event (stop_bot w)"
  by (simp_all add: stop_bot_def write_bot_def)


















section \<open>Rules for the judgements\<close>
























lemma keeps_silo_simps [simp]:
  "keeps_silo (\<lambda>s. s\<lparr>path_execution_active := b\<rparr>)"
  "keeps_silo (\<lambda>s. s\<lparr>running := b\<rparr>)"
  "keeps_silo (\<lambda>s. s\<lparr>wheat_sold_this_session := b\<rparr>)"
  "keeps_silo (\<lambda>s. s\<lparr>silo_is_full := True\<rparr>)"
  by (simp_all add: keeps_silo_def)

section \<open>The functions of the task keep every robust property\<close>





































section \<open>The silo flag over a run of the loop\<close>

















section \<open>The drags under the fail-safe of pyautogui\<close>

text \<open>
  \<open>pyautogui\<close> checks its fail-safe at the start of every call, \<open>mouseUp\<close> included, and
  raises \<open>FailSafeException\<close> as long as the pointer is in a corner of the screen; nothing
  in the repository switches the check off. In the two runs below the pointer reaches
  the corner after the second point of the path: the next \<open>moveTo\<close> raises, and so does
  the \<open>mouseUp\<close> of the handler.
\<close>

lemma harvest_run:
  "harvest_wheat box_test (fail_safe_from 11) 50 50 (Some square100) started
     = (Exn,
        \<lparr>bot = \<lparr>running = True, detection_active = True, path_execution_active = True,
             silo_is_full = False, wheat_sold_this_session = False\<rparr>,
          stop_event = False,
          hist = [\<lparr>running = True, detection_active = True, path_execution_active = True,
             silo_is_full = False, wheat_sold_this_session = False\<rparr>],
          acts = [Click 50 50, Sleep (3602879701896397 / 36028797018963968),
                  Sleep (3602879701896397 / 36028797018963968),
                  MoveTo (- 210) 10,
                  Sleep (3602879701896397 / 4503599627370496), MouseDown,
                  MoveTo 65 75, Sleep (3602879701896397 / 18014398509481984),
                  MoveTo 50 50],
          log_lines = [], cursor = 13\<rparr>)"
  by code_simp

lemma plant_run:
  "plant_wheat box_test (fail_safe_from 36) 50 50 (Some square100) started
     = (Exn,
        \<lparr>bot = \<lparr>running = True, detection_active = True, path_execution_active = True,
             silo_is_full = False, wheat_sold_this_session = False\<rparr>,
          stop_event = False,
          hist = [\<lparr>running = True, detection_active = True, path_execution_active = True,
             silo_is_full = False, wheat_sold_this_session = False\<rparr>],
          acts = [Click 50 50, Sleep (3602879701896397 / 36028797018963968),
                  Sleep (3602879701896397 / 36028797018963968),
                  Sleep (3602879701896397 / 36028797018963968),
                  Sleep (3602879701896397 / 36028797018963968),
                  Sleep (3602879701896397 / 36028797018963968),
                  Sleep (3602879701896397 / 36028797018963968),
                  Sleep (3602879701896397 / 36028797018963968),
                  Sleep (3602879701896397 / 36028797018963968),
                  Sleep (3602879701896397 / 36028797018963968),
                  Sleep (3602879701896397 / 36028797018963968),
                  Sleep (3602879701896397 / 36028797018963968),
                  Sleep (3602879701896397 / 36028797018963968),
                  Sleep (3602879701896397 / 36028797018963968),
                  Sleep (3602879701896397 / 36028797018963968),
                  Sleep (3602879701896397 / 36028797018963968),
                  Sleep (3602879701896397 / 36028797018963968),
                  Sleep (3602879701896397 / 36028797018963968),
                  Sleep (3602879701896397 / 36028797018963968),
                  Sleep (3602879701896397 / 36028797018963968),
                  Sleep (3602879701896397 / 36028797018963968),
                  Sleep (3602879701896397 / 36028797018963968),
                  Sleep (450359962737047 / 4503599627370496),
                  Click (- 50) (- 100),
                  Sleep (3602879701896397 / 36028797018963968),
                  Sleep (3602879701896397 / 36028797018963968),
                  Sleep (3602879701896397 / 4503599627370496), MouseDown,
                  MoveTo 75 130, Sleep (3602879701896397 / 18014398509481984),
                  MoveTo 50 50, MoveTo 0 22],
          log_lines = [], cursor = 38\<rparr>)"
  by code_simp

text \<open>
  C2 fails in the code. When a \<open>moveTo\<close> of the drag raises and the \<open>mouseUp\<close> of the
  \<open>except\<close> handler raises too, \<open>plant_wheat\<close> and \<open>harvest_wheat\<close> are left by an
  exception after \<open>path_execution_active\<close> was set: the pointer was pressed and never
  released, and \<open>path_execution_active\<close> is still true, because the handler resets it
  only after \<open>mouseUp\<close>. In both runs the script raises at the two calls that are the
  \<open>moveTo\<close> and the \<open>mouseUp\<close>.
\<close>

theorem drag_exception_keeps_path_locked:
  "fst (plant_wheat box_test (fail_safe_from 36) 50 50 (Some square100) started) = Exn
   \<and> path_execution_active
         (bot (snd (plant_wheat box_test (fail_safe_from 36) 50 50 (Some square100) started)))
   \<and> MouseDown
         \<in> set (acts (snd (plant_wheat box_test (fail_safe_from 36) 50 50 (Some square100)
                              started)))
   \<and> MouseUp
         \<notin> set (acts (snd (plant_wheat box_test (fail_safe_from 36) 50 50 (Some square100)
                              started)))
   \<and> cursor (snd (plant_wheat box_test (fail_safe_from 36) 50 50 (Some square100) started))
       = 38
   \<and> raises (fail_safe_from 36 36) \<and> raises (fail_safe_from 36 37)
   \<and> \<not> raises (fail_safe_from 36 35)
   \<and> fst (harvest_wheat box_test (fail_safe_from 11) 50 50 (Some square100) started) = Exn
   \<and> path_execution_active
         (bot (snd (harvest_wheat box_test (fail_safe_from 11) 50 50 (Some square100) started)))
   \<and> MouseDown
         \<in> set (acts (snd (harvest_wheat box_test (fail_safe_from 11) 50 50 (Some square100)
                              started)))
   \<and> MouseUp
         \<notin> set (acts (snd (harvest_wheat box_test (fail_safe_from 11) 50 50 (Some square100)
                              started)))
   \<and> cursor (snd (harvest_wheat box_test (fail_safe_from 11) 50 50 (Some square100) started))
       = 13
   \<and> raises (fail_safe_from 11 11) \<and> raises (fail_safe_from 11 12)
   \<and> \<not> raises (fail_safe_from 11 10)"
  unfolding plant_run harvest_run by (simp add: fail_safe_from_def)

end
